theory Spec2Isabelle
  imports Complex_Main "HOL-Library.Word" "HOL-Library.AList"
begin

section \<open>md2pptx: the slide model builder and the layout engine of \<open>src/index.tsx\<close>\<close>

subsection \<open>Strings\<close>

text \<open>
  A JavaScript string is a sequence of UTF-16 code units; the regular expressions of the
  source carry no \<open>u\<close> flag and so work on code units as well. ASCII literals of the
  source are written \<open>js ''...''\<close>.
\<close>

type_synonym jsstring = "16 word list"

definition js :: "string \<Rightarrow> jsstring" where
  "js s = map of_char s"

subsection \<open>Inline tokens and text runs\<close>

text \<open>
  The inline tokens of \<open>marked\<close>, as far as \<open>parseTextRuns\<close> tells them apart:
  \<open>strong\<close>, \<open>em\<close>, \<open>codespan\<close>, \<open>link\<close> (href, title, children), \<open>text\<close> (with or
  without a \<open>tokens\<close> property) and every other type, of which only \<open>raw\<close> is read.
\<close>

datatype token =
    Strong "token list"
  | Em "token list"
  | Codespan jsstring
  | Link jsstring "jsstring option" "token list"
  | Text jsstring "token list option"
  | Other jsstring

record hyperlink_props =
  url :: jsstring
  tooltip :: jsstring

text \<open>\<open>PptxGenJS.TextPropsOptions\<close>, restricted to the keys the program reads or writes;
  \<open>None\<close> is an absent key.\<close>

record TextPropsOptions =
  bold :: "bool option"
  italic :: "bool option"
  fontFace :: "jsstring option"
  hyperlink :: "hyperlink_props option"
  bullet :: "bool option"
  breakLine :: "bool option"

definition empty_options :: TextPropsOptions where
  "empty_options = \<lparr>bold = None, italic = None, fontFace = None, hyperlink = None,
     bullet = None, breakLine = None\<rparr>"

text \<open>\<open>PptxGenJS.TextProps\<close>: \<open>{ text, options? }\<close>.\<close>

record TextProps =
  run_text :: jsstring
  run_options :: "TextPropsOptions option"

text \<open>\<open>token.title || token.href\<close>: a title that is null or empty gives the href.\<close>

definition title_or_href :: "jsstring option \<Rightarrow> jsstring \<Rightarrow> jsstring" where
  "title_or_href t h = (case t of None \<Rightarrow> h | Some s \<Rightarrow> if s = [] then h else s)"

text \<open>
  \<open>parseTextRuns\<close>: the \<open>for\<close> loop over the tokens is the list recursion, its body
  (the \<open>switch\<close>) is \<open>parseToken\<close>. \<open>currentOptions\<close> is a fresh copy of
  \<open>parentOptions\<close> for every token, so no two runs share an options object.
\<close>

fun parseTextRuns :: "token list \<Rightarrow> TextPropsOptions \<Rightarrow> TextProps list"
  and parseToken :: "token \<Rightarrow> TextPropsOptions \<Rightarrow> TextProps list" where
  "parseTextRuns [] parentOptions = []"
| "parseTextRuns (t # ts) parentOptions =
     parseToken t parentOptions @ parseTextRuns ts parentOptions"
| "parseToken (Strong ts) currentOptions =
     parseTextRuns ts (currentOptions\<lparr>bold := Some True\<rparr>)"
| "parseToken (Em ts) currentOptions =
     parseTextRuns ts (currentOptions\<lparr>italic := Some True\<rparr>)"
| "parseToken (Codespan t) currentOptions =
     [\<lparr>run_text = js '' '' @ t @ js '' '',
       run_options = Some (currentOptions\<lparr>fontFace := Some (js ''Courier New'')\<rparr>)\<rparr>]"
| "parseToken (Link href title ts) currentOptions =
     parseTextRuns ts (currentOptions\<lparr>hyperlink :=
        Some \<lparr>url = href, tooltip = title_or_href title href\<rparr>\<rparr>)"
| "parseToken (Text t (Some ts)) currentOptions = parseTextRuns ts currentOptions"
| "parseToken (Text t None) currentOptions =
     [\<lparr>run_text = t, run_options = Some currentOptions\<rparr>]"
| "parseToken (Other raw) currentOptions =
     (if raw \<noteq> [] then [\<lparr>run_text = raw, run_options = Some currentOptions\<rparr>] else [])"

subsection \<open>The resolver's contract, in the specification's words\<close>

text \<open>
  A formatting span a run can be nested inside, and the leaves of an inline token tree
  in reading order, each with the chain of spans around it (outermost first) and whether
  it is a code span. A code span is rendered with one space of padding on each side.
\<close>

datatype span = Bold | Italic | Hyperlink jsstring jsstring

fun spec_leaves :: "span list \<Rightarrow> token list \<Rightarrow> (jsstring \<times> span list \<times> bool) list"
  and spec_leaf :: "span list \<Rightarrow> token \<Rightarrow> (jsstring \<times> span list \<times> bool) list" where
  "spec_leaves anc [] = []"
| "spec_leaves anc (t # ts) = spec_leaf anc t @ spec_leaves anc ts"
| "spec_leaf anc (Strong ts) = spec_leaves (anc @ [Bold]) ts"
| "spec_leaf anc (Em ts) = spec_leaves (anc @ [Italic]) ts"
| "spec_leaf anc (Codespan t) = [(js '' '' @ t @ js '' '', anc, True)]"
| "spec_leaf anc (Link href title ts) =
     spec_leaves (anc @ [Hyperlink href (title_or_href title href)]) ts"
| "spec_leaf anc (Text t (Some ts)) = spec_leaves anc ts"
| "spec_leaf anc (Text t None) = [(t, anc, False)]"
| "spec_leaf anc (Other raw) = (if raw \<noteq> [] then [(raw, anc, False)] else [])"

text \<open>The rendered text of a token tree: the leaves' texts, concatenated.\<close>

definition spec_rendered_text :: "token list \<Rightarrow> jsstring" where
  "spec_rendered_text ts = concat (map fst (spec_leaves [] ts))"

text \<open>The union of a chain of spans with an inherited style; of two hyperlinks the inner
  one is the link of the run.\<close>

fun add_span :: "TextPropsOptions \<Rightarrow> span \<Rightarrow> TextPropsOptions" where
  "add_span po Bold = po\<lparr>bold := Some True\<rparr>"
| "add_span po Italic = po\<lparr>italic := Some True\<rparr>"
| "add_span po (Hyperlink u t) = po\<lparr>hyperlink := Some \<lparr>url = u, tooltip = t\<rparr>\<rparr>"

definition spec_style :: "TextPropsOptions \<Rightarrow> span list \<Rightarrow> TextPropsOptions" where
  "spec_style po anc = foldl add_span po anc"

fun innermost_link :: "span list \<Rightarrow> hyperlink_props option" where
  "innermost_link [] = None"
| "innermost_link (Hyperlink u t # anc) =
     (case innermost_link anc of None \<Rightarrow> Some \<lparr>url = u, tooltip = t\<rparr> | Some h \<Rightarrow> Some h)"
| "innermost_link (_ # anc) = innermost_link anc"

definition spec_run :: "TextPropsOptions \<Rightarrow> jsstring \<times> span list \<times> bool \<Rightarrow> TextProps" where
  "spec_run po l = (case l of (t, anc, is_code) \<Rightarrow>
     \<lparr>run_text = t,
      run_options = Some (if is_code then (spec_style po anc)\<lparr>fontFace := Some (js ''Courier New'')\<rparr>
                          else spec_style po anc)\<rparr>)"

subsection \<open>The regular expressions of \<open>parseSlides\<close>\<close>

text \<open>
  The class \<open>\s\<close> of a JavaScript regular expression, which is also what
  \<open>String.prototype.trim\<close> strips (WhiteSpace and LineTerminator), and the line
  terminators, which \<open>.\<close> does not match.
\<close>

definition is_space :: "16 word \<Rightarrow> bool" where
  "is_space c = (c \<in> {0x09, 0x0A, 0x0B, 0x0C, 0x0D, 0x20, 0xA0, 0x1680, 0x2028, 0x2029,
      0x202F, 0x205F, 0x3000, 0xFEFF} \<or> (0x2000 \<le> c \<and> c \<le> 0x200A))"

definition is_line_terminator :: "16 word \<Rightarrow> bool" where
  "is_line_terminator c = (c \<in> {0x0A, 0x0D, 0x2028, 0x2029})"

definition trim :: "jsstring \<Rightarrow> jsstring" where
  "trim s = rev (dropWhile is_space (rev (dropWhile is_space s)))"

definition strip_prefix :: "jsstring \<Rightarrow> jsstring \<Rightarrow> jsstring option" where
  "strip_prefix p s = (if take (length p) s = p then Some (drop (length p) s) else None)"

text \<open>
  \<open>text.match(/^>\s*Note:\s*(.*)/)\<close>, group 1. Both \<open>\s*\<close> are greedy and what
  follows each cannot start with white space, so each takes the whole run of white space;
  \<open>(.*)\<close> runs to the first line terminator.
\<close>

definition noteMatch :: "jsstring \<Rightarrow> jsstring option" where
  "noteMatch s =
     (case strip_prefix (js ''>'') s of
        None \<Rightarrow> None
      | Some r \<Rightarrow>
          (case strip_prefix (js ''Note:'') (dropWhile is_space r) of
             None \<Rightarrow> None
           | Some n \<Rightarrow>
               Some (takeWhile (\<lambda>c. \<not> is_line_terminator c) (dropWhile is_space n))))"

text \<open>
  \<open>txt.match(/^!\[([^\]]*)\]\(([^)]+)\)$/)\<close>, groups 1 (alt) and 2 (href): the alt text
  runs to the first \<open>]\<close> (0x5D), the href is non-empty and runs to the first \<open>)\<close>
  (0x29), which ends the text.
\<close>

definition imgMatch :: "jsstring \<Rightarrow> (jsstring \<times> jsstring) option" where
  "imgMatch s =
     (case strip_prefix (js ''!['') s of
        None \<Rightarrow> None
      | Some r \<Rightarrow>
          (case strip_prefix (js '']('') (dropWhile (\<lambda>c. c \<noteq> 0x5D) r) of
             None \<Rightarrow> None
           | Some h \<Rightarrow>
               (if takeWhile (\<lambda>c. c \<noteq> 0x29) h \<noteq> [] \<and> dropWhile (\<lambda>c. c \<noteq> 0x29) h = js '')''
                then Some (takeWhile (\<lambda>c. c \<noteq> 0x5D) r, takeWhile (\<lambda>c. c \<noteq> 0x29) h)
                else None)))"

text \<open>
  \<open>txt.match(/^!shape\[(.*)\]\((.*)\)$/)\<close>, groups 1 and 2. Neither \<open>.*\<close> crosses a
  line terminator and the match runs to the end of the text, so the text after
  \<open>!shape[\<close> has no line terminator and ends with \<open>)\<close>; the first \<open>.*\<close> is greedy,
  so the groups are split at the last \<open>](\<close> before that final \<open>)\<close>.
\<close>

fun split_last_sep :: "jsstring \<Rightarrow> (jsstring \<times> jsstring) option" where
  "split_last_sep [] = None"
| "split_last_sep (c # cs) =
     (case split_last_sep cs of
        Some (a, b) \<Rightarrow> Some (c # a, b)
      | None \<Rightarrow> (case strip_prefix (js '']('') (c # cs) of
                   Some b \<Rightarrow> Some ([], b)
                 | None \<Rightarrow> None))"

definition shapeMatch :: "jsstring \<Rightarrow> (jsstring \<times> jsstring) option" where
  "shapeMatch s =
     (case strip_prefix (js ''!shape['') s of
        None \<Rightarrow> None
      | Some r \<Rightarrow>
          (if r \<noteq> [] \<and> last r = 0x29 \<and> \<not> list_ex is_line_terminator r
           then split_last_sep (butlast r) else None))"

subsection \<open>Shape names and shape options\<close>

text \<open>The string enum \<open>LocalShapeType\<close>: at run time each member is its string.\<close>

definition RECTANGLE :: jsstring where "RECTANGLE = js ''rect''"
definition OVAL :: jsstring where "OVAL = js ''ellipse''"
definition ELLIPSE :: jsstring where "ELLIPSE = js ''ellipse''"
definition LINE :: jsstring where "LINE = js ''line''"
definition TRIANGLE :: jsstring where "TRIANGLE = js ''triangle''"

definition shapeNameMap :: "(jsstring \<times> jsstring) list" where
  "shapeNameMap = [(js ''rect'', RECTANGLE), (js ''oval'', OVAL), (js ''ellipse'', ELLIPSE),
     (js ''line'', LINE), (js ''triangle'', TRIANGLE)]"

text \<open>
  \<open>shapeNameMap\<close> is an object literal, so a property read that finds no own key goes on
  to \<open>Object.prototype\<close>, whose properties are these; each of them is a function
  or an object.
\<close>

definition Object_prototype_keys :: "jsstring list" where
  "Object_prototype_keys = [js ''constructor'', js ''__defineGetter__'', js ''__defineSetter__'',
     js ''hasOwnProperty'', js ''__lookupGetter__'', js ''__lookupSetter__'',
     js ''isPrototypeOf'', js ''propertyIsEnumerable'', js ''toString'', js ''valueOf'',
     js ''__proto__'', js ''toLocaleString'']"

text \<open>The value of \<open>shapeNameMap[shapeName]\<close>: a member of the enum, a property
  inherited from \<open>Object.prototype\<close>, or \<open>undefined\<close> (\<open>None\<close>).\<close>

datatype shape_value = ShapeType jsstring | Inherited jsstring

definition shapeNameMap_get :: "jsstring \<Rightarrow> shape_value option" where
  "shapeNameMap_get shapeName =
     (case map_of shapeNameMap shapeName of
        Some t \<Rightarrow> Some (ShapeType t)
      | None \<Rightarrow> if shapeName \<in> set Object_prototype_keys then Some (Inherited shapeName)
                else None)"

text \<open>
  The values of the property bags: what \<open>JSON.parse\<close> returns and, for the cursor that
  the layout stores under \<open>y\<close>, the number NaN, which no JSON text denotes. Numbers are
  IEEE doubles in the program and exact rationals here. \<open>JSON.parse\<close> itself is a
  parameter of \<open>parseSlides\<close>: \<open>None\<close> is its \<open>SyntaxError\<close>.
\<close>

datatype json =
    JNull
  | JBool bool
  | JNum rat
  | JNaN
  | JStr jsstring
  | JArr "json list"
  | JObj "(jsstring \<times> json) list"

subsection \<open>The slide model\<close>

datatype SlideElement =
    TextBlock "TextProps list"
  | Image jsstring jsstring
  | Table "jsstring list" "jsstring list list"
  | Shape shape_value json
  | ColumnBreak

text \<open>\<open>Image href alt\<close>, \<open>Table headers rows\<close>, \<open>Shape shape options\<close>.\<close>

record SlideData =
  title :: jsstring
  elements :: "SlideElement list"
  slide_notes :: "jsstring option"

subsection \<open>Block tokens\<close>

text \<open>
  The block tokens of \<open>marked.lexer\<close>, as far as \<open>parseSlides\<close> reads them: a heading
  (depth, text), a paragraph (text, tokens), a list (items), a table (header cells, rows
  of cells), a horizontal rule, and every other type.
\<close>

record list_item =
  task :: bool
  checked :: "bool option"
  item_tokens :: "token list"

datatype table_cell = Cell (cell_text: jsstring) (cell_tokens: "token list")

datatype block =
    BHeading nat jsstring
  | BParagraph jsstring "token list option"
  | BList "list_item list"
  | BTable "table_cell list" "table_cell list list"
  | BHr
  | BOther

subsection \<open>Numbers and strings at run time\<close>

text \<open>
  \<open>yOffset\<close>, and what is added to it, is a number or, once a \<open>+\<close> has met a string, a
  string: \<open>VNaN\<close> is the number NaN. The only exception \<open>renderElements\<close> can throw is
  the \<open>TypeError\<close> of an object that cannot be converted to a primitive value.
\<close>

datatype prim = VNum rat | VNaN | VStr jsstring

datatype error = TypeError

text \<open>
  The two conversions of the language between numbers and strings, \<open>Number::toString\<close>
  and \<open>StringToNumber\<close> (\<open>None\<close> is NaN), are parameters of the layout, as \<open>JSON.parse\<close>
  is of \<open>parseSlides\<close>.
\<close>

record builtins =
  Number_toString :: "rat \<Rightarrow> jsstring"
  StringToNumber :: "jsstring \<Rightarrow> rat option"

definition ToString :: "builtins \<Rightarrow> prim \<Rightarrow> jsstring" where
  "ToString B v =
     (case v of VNum n \<Rightarrow> Number_toString B n | VNaN \<Rightarrow> js ''NaN'' | VStr s \<Rightarrow> s)"

definition ToNumber :: "builtins \<Rightarrow> prim \<Rightarrow> rat option" where
  "ToNumber B v = (case v of VNum n \<Rightarrow> Some n | VNaN \<Rightarrow> None | VStr s \<Rightarrow> StringToNumber B s)"

text \<open>The operator \<open>+\<close> on two primitive values: a concatenation when either is a string,
  else the sum of two numbers.\<close>

fun js_plus :: "builtins \<Rightarrow> prim \<Rightarrow> prim \<Rightarrow> prim" where
  "js_plus B (VStr a) v = VStr (a @ ToString B v)"
| "js_plus B v (VStr b) = VStr (ToString B v @ b)"
| "js_plus B (VNum a) (VNum b) = VNum (a + b)"
| "js_plus B _ _ = VNaN"

definition prim_json :: "prim \<Rightarrow> json" where
  "prim_json v = (case v of VNum n \<Rightarrow> JNum n | VNaN \<Rightarrow> JNaN | VStr s \<Rightarrow> JStr s)"

text \<open>
  \<open>ToString\<close> of a value of the options, as \<open>+\<close> applies it to an array or an object: an
  array is joined with commas, null elements giving the empty string; an object parsed
  from JSON gives \<open>[object Object]\<close> unless it has a member \<open>toString\<close> of its own, which
  is never callable, and then the conversion throws.
\<close>

fun json_toString :: "builtins \<Rightarrow> json \<Rightarrow> error + jsstring"
  and join :: "builtins \<Rightarrow> json list \<Rightarrow> error + jsstring" where
  "json_toString B JNull = Inr (js ''null'')"
| "json_toString B JNaN = Inr (js ''NaN'')"
| "json_toString B (JBool b) = Inr (if b then js ''true'' else js ''false'')"
| "json_toString B (JNum n) = Inr (Number_toString B n)"
| "json_toString B (JStr s) = Inr s"
| "json_toString B (JArr vs) = join B vs"
| "json_toString B (JObj members) =
     (if map_of members (js ''toString'') = None then Inr (js ''[object Object]'')
      else Inl TypeError)"
| "join B [] = Inr []"
| "join B (v # vs) =
     (case (if v = JNull then Inr [] else json_toString B v) of
        Inl e \<Rightarrow> Inl e
      | Inr s \<Rightarrow>
          (case join B vs of
             Inl e \<Rightarrow> Inl e
           | Inr t \<Rightarrow> Inr (if vs = [] then s else s @ js '','' @ t)))"

subsection \<open>Effects\<close>

text \<open>
  What the program does beyond returning values: the two \<open>console.error\<close> lines of
  \<open>parseSlides\<close> and the calls on the slide object of PptxGenJS. The constant
  options of the calls (font sizes, \<open>autoFit\<close>, \<open>autoPage\<close>) are left out; the
  arguments are \<open>x\<close>, \<open>y\<close>, \<open>w\<close> and, where the call gives one, \<open>h\<close>. The \<open>y\<close> of a
  placing call is the cursor, and the \<open>h\<close> of a text is computed from it: both are
  numbers or, after a concatenation, strings or NaN.
\<close>

datatype effect =
    InvalidShapeName jsstring
  | InvalidShapeSyntax jsstring
  | AddTitle jsstring rat rat rat rat
  | AddNotes jsstring
  | AddText "TextProps list" rat prim rat prim
  | AddImage jsstring rat prim rat rat
  | AddTable "jsstring list list" rat prim rat
  | AddShape shape_value "(jsstring \<times> json) list"

fun is_diagnostic :: "effect \<Rightarrow> bool" where
  "is_diagnostic (InvalidShapeName _) = True"
| "is_diagnostic (InvalidShapeSyntax _) = True"
| "is_diagnostic _ = False"

subsection \<open>\<open>parseSlides\<close>\<close>

text \<open>The state of the loop: the slides pushed so far, \<open>current\<close>, and the diagnostics
  printed so far.\<close>

record builder =
  slides :: "SlideData list"
  current :: "SlideData option"
  errors :: "effect list"

definition push_element :: "SlideData \<Rightarrow> SlideElement \<Rightarrow> SlideData" where
  "push_element cur e = cur\<lparr>elements := elements cur @ [e]\<rparr>"

text \<open>
  \<open>case 'paragraph'\<close> with a current slide: the new current slide and the diagnostics
  printed. The \<open>try\<close> block can only throw in \<open>JSON.parse\<close>.
\<close>

definition parseParagraph :: "(jsstring \<Rightarrow> json option) \<Rightarrow> jsstring \<Rightarrow> token list option \<Rightarrow>
    SlideData \<Rightarrow> SlideData \<times> effect list" where
  "parseParagraph JSON_parse text tokens cur =
     (case noteMatch text of
        Some note \<Rightarrow> (cur\<lparr>slide_notes := Some (trim note)\<rparr>, [])
      | None \<Rightarrow>
          (let txt = trim text in
           case imgMatch txt of
             Some (alt, href) \<Rightarrow> (push_element cur (Image href alt), [])
           | None \<Rightarrow>
               (case shapeMatch txt of
                  Some (shapeName, optionsText) \<Rightarrow>
                    (case shapeNameMap_get shapeName of
                       None \<Rightarrow> (cur, [InvalidShapeName shapeName])
                     | Some shapeType \<Rightarrow>
                         (case JSON_parse optionsText of
                            None \<Rightarrow> (cur, [InvalidShapeSyntax txt])
                          | Some options \<Rightarrow> (push_element cur (Shape shapeType options), [])))
                | None \<Rightarrow>
                    (let runs = parseTextRuns (case tokens of None \<Rightarrow> [] | Some ts \<Rightarrow> ts)
                                  empty_options
                     in if runs \<noteq> [] then (push_element cur (TextBlock runs), [])
                        else (cur, [])))))"

text \<open>The two check box strings: U+2611 U+FE0F and a space, U+2610 and a space.\<close>

definition box :: "bool option \<Rightarrow> jsstring" where
  "box c = (if c = Some True then [0x2611, 0xFE0F, 0x20] else [0x2610, 0x20])"

text \<open>The body of the loop over the items of a list.\<close>

definition listItem :: "SlideData \<Rightarrow> list_item \<Rightarrow> SlideData" where
  "listItem cur item =
     (case parseTextRuns (item_tokens item) empty_options of
        [] \<Rightarrow> cur
      | r # rs \<Rightarrow>
          (if task item then
             (if run_text r \<noteq> []
              then push_element cur
                     (TextBlock (r\<lparr>run_text := box (checked item) @ run_text r\<rparr> # rs))
              else push_element cur
                     (TextBlock (\<lparr>run_text = box (checked item), run_options = None\<rparr> # r # rs)))
           else push_element cur
                  (TextBlock (r\<lparr>run_options :=
                     Some ((case run_options r of None \<Rightarrow> empty_options | Some ro \<Rightarrow> ro)
                            \<lparr>bullet := Some True\<rparr>)\<rparr> # rs))))"

text \<open>One turn of the loop over the block tokens.\<close>

fun step :: "(jsstring \<Rightarrow> json option) \<Rightarrow> builder \<Rightarrow> block \<Rightarrow> builder" where
  "step JSON_parse st (BHeading depth text) =
     (if depth = 1 then
        st\<lparr>slides := (case current st of None \<Rightarrow> slides st | Some cur \<Rightarrow> slides st @ [cur]),
           current := Some \<lparr>title = text, elements = [], slide_notes = None\<rparr>\<rparr>
      else st)"
| "step JSON_parse st (BParagraph text tokens) =
     (case current st of
        None \<Rightarrow> st
      | Some cur \<Rightarrow>
          (case parseParagraph JSON_parse text tokens cur of
             (cur', printed) \<Rightarrow> st\<lparr>current := Some cur', errors := errors st @ printed\<rparr>))"
| "step JSON_parse st (BList items) =
     (case current st of
        None \<Rightarrow> st
      | Some cur \<Rightarrow> st\<lparr>current := Some (foldl listItem cur items)\<rparr>)"
| "step JSON_parse st (BTable header rows) =
     (case current st of
        None \<Rightarrow> st
      | Some cur \<Rightarrow>
          st\<lparr>current := Some (push_element cur
               (Table (map cell_text header) (map (map cell_text) rows)))\<rparr>)"
| "step JSON_parse st BHr =
     (case current st of
        None \<Rightarrow> st
      | Some cur \<Rightarrow> st\<lparr>current := Some (push_element cur ColumnBreak)\<rparr>)"
| "step JSON_parse st BOther = st"

definition initial :: builder where
  "initial = \<lparr>slides = [], current = None, errors = []\<rparr>"

definition finish :: "builder \<Rightarrow> SlideData list \<times> effect list" where
  "finish st =
     ((case current st of None \<Rightarrow> slides st | Some cur \<Rightarrow> slides st @ [cur]), errors st)"

text \<open>
  \<open>parseSlides\<close>, from the tokens \<open>marked.lexer\<close> returns: the slides, and the
  diagnostics printed on the way.
\<close>

definition parseSlides :: "(jsstring \<Rightarrow> json option) \<Rightarrow> block list \<Rightarrow>
    SlideData list \<times> effect list" where
  "parseSlides JSON_parse tokens = finish (foldl (step JSON_parse) initial tokens)"

subsection \<open>The layout engine\<close>

definition slideHeight :: rat where
  "slideHeight = 5.625"

definition bottomMargin :: rat where
  "bottomMargin = 0.25"

text \<open>The decimal numeral of an array index, as a property key.\<close>

function decimal :: "nat \<Rightarrow> jsstring" where
  "decimal n = (if n < 10 then [of_nat (48 + n)]
                else decimal (n div 10) @ [of_nat (48 + n mod 10)])"
  by pat_completeness auto
termination
  by (relation "measure id") auto

declare decimal.simps [simp del]

text \<open>
  The own enumerable properties that an object spread \<open>...v\<close> copies: the members of an
  object, the indexed elements of an array, the indexed code units of a string, and
  nothing for null, a boolean or a number. Properties are kept in the order of the list;
  a later member of the same key overwrites an earlier one in place, as an assignment
  to an existing property does.
\<close>

definition spread :: "json \<Rightarrow> (jsstring \<times> json) list" where
  "spread v =
     (case v of
        JObj members \<Rightarrow> members
      | JArr vs \<Rightarrow> zip (map decimal [0..<length vs]) vs
      | JStr s \<Rightarrow> zip (map decimal [0..<length s]) (map (\<lambda>c. JStr [c]) s)
      | _ \<Rightarrow> [])"

definition assign :: "(jsstring \<times> json) list \<Rightarrow> (jsstring \<times> json) list \<Rightarrow>
    (jsstring \<times> json) list" where
  "assign obj props = foldl (\<lambda>acc (k, v). AList.update k v acc) obj props"

text \<open>\<open>const finalOptions = { x, w, ...el.options, y: yOffset }\<close>.\<close>

definition finalOptions :: "rat \<Rightarrow> rat \<Rightarrow> json \<Rightarrow> prim \<Rightarrow> (jsstring \<times> json) list" where
  "finalOptions x w options yOffset =
     AList.update (js ''y'') (prim_json yOffset)
       (assign [(js ''x'', JNum x), (js ''w'', JNum w)] (spread options))"

text \<open>
  \<open>(finalOptions.h as number || 1) + 0.2\<close>; the cast is erased at run time. An absent,
  null, false, zero, NaN or empty \<open>h\<close> is falsy and gives the default 1; \<open>true\<close> counts
  as 1 in the sum. With any other string, an array or an object the \<open>+\<close> is a
  concatenation with the string of 0.2, unless the conversion of the object throws.
\<close>

definition shapeAdvance :: "builtins \<Rightarrow> (jsstring \<times> json) list \<Rightarrow> error + prim" where
  "shapeAdvance B fo =
     (case map_of fo (js ''h'') of
        None \<Rightarrow> Inr (VNum (1 + 0.2))
      | Some JNull \<Rightarrow> Inr (VNum (1 + 0.2))
      | Some JNaN \<Rightarrow> Inr (VNum (1 + 0.2))
      | Some (JBool b) \<Rightarrow> Inr (VNum (1 + 0.2))
      | Some (JNum n) \<Rightarrow> Inr (VNum ((if n = 0 then 1 else n) + 0.2))
      | Some (JStr s) \<Rightarrow>
          (if s = [] then Inr (VNum (1 + 0.2)) else Inr (js_plus B (VStr s) (VNum 0.2)))
      | Some (JArr vs) \<Rightarrow>
          (case json_toString B (JArr vs) of
             Inl e \<Rightarrow> Inl e
           | Inr s \<Rightarrow> Inr (js_plus B (VStr s) (VNum 0.2)))
      | Some (JObj members) \<Rightarrow>
          (case json_toString B (JObj members) of
             Inl e \<Rightarrow> Inl e
           | Inr s \<Rightarrow> Inr (js_plus B (VStr s) (VNum 0.2))))"

text \<open>\<open>el.runs.reduce((acc, run) => acc + (run.options?.breakLine ? 1 : 0), 1)\<close>.\<close>

definition estimatedLines :: "TextProps list \<Rightarrow> nat" where
  "estimatedLines runs =
     foldl (\<lambda>acc run. acc + (case run_options run of
                                 None \<Rightarrow> 0
                               | Some ro \<Rightarrow> if breakLine ro = Some True then 1 else 0)) 1 runs"

text \<open>\<open>slideHeight - yOffset - bottomMargin\<close> (\<open>None\<close> is NaN), and
  \<open>Math.min(remainingHeight, estimatedLines * 0.5)\<close>, which is NaN when the remaining
  height is.\<close>

definition remainingHeight :: "builtins \<Rightarrow> prim \<Rightarrow> rat option" where
  "remainingHeight B yOffset =
     map_option (\<lambda>n. slideHeight - n - bottomMargin) (ToNumber B yOffset)"

definition estimatedHeight :: "builtins \<Rightarrow> prim \<Rightarrow> TextProps list \<Rightarrow> prim" where
  "estimatedHeight B yOffset runs =
     (case remainingHeight B yOffset of
        None \<Rightarrow> VNaN
      | Some r \<Rightarrow> VNum (min r (of_nat (estimatedLines runs) * 0.5)))"

definition emit :: "effect \<Rightarrow> error + (effect list \<times> prim) \<Rightarrow> error + (effect list \<times> prim)" where
  "emit c r = (case r of Inl e \<Rightarrow> Inl e | Inr (cs, y) \<Rightarrow> Inr (c # cs, y))"

text \<open>
  \<open>renderElements(slide, elems, x, y, w)\<close>: the calls it makes on \<open>slide\<close>, in order,
  and the \<open>yOffset\<close> it returns, or the exception it throws (\<open>main\<close> then exits
  without writing the file, so the calls made before the exception are of no account).
  The \<open>break\<close> of the loop is the early return; the comparison
  \<open>remainingHeight <= 0.1\<close> is false of NaN. A column break among the elements matches
  no branch: nothing is placed and the cursor stays.
\<close>

fun renderElements :: "builtins \<Rightarrow> SlideElement list \<Rightarrow> rat \<Rightarrow> prim \<Rightarrow> rat \<Rightarrow>
    error + (effect list \<times> prim)" where
  "renderElements B [] x yOffset w = Inr ([], yOffset)"
| "renderElements B (el # elems) x yOffset w =
     (if (case remainingHeight B yOffset of None \<Rightarrow> False | Some r \<Rightarrow> r \<le> 0.1)
      then Inr ([], yOffset)
      else
        (case el of
           TextBlock runs \<Rightarrow>
             emit (AddText runs x yOffset w (estimatedHeight B yOffset runs))
               (renderElements B elems x
                  (js_plus B yOffset (js_plus B (estimatedHeight B yOffset runs) (VNum 0.1))) w)
         | Image href alt \<Rightarrow>
             emit (AddImage href x yOffset w 3)
               (renderElements B elems x (js_plus B yOffset (VNum 3.2)) w)
         | Table headers rows \<Rightarrow>
             emit (AddTable (headers # rows) x yOffset w)
               (renderElements B elems x
                  (js_plus B yOffset (VNum (of_nat (length rows) * 0.5 + 0.5))) w)
         | Shape shape options \<Rightarrow>
             (case shapeAdvance B (finalOptions x w options yOffset) of
                Inl e \<Rightarrow> Inl e
              | Inr a \<Rightarrow>
                  emit (AddShape shape (finalOptions x w options yOffset))
                    (renderElements B elems x (js_plus B yOffset a) w))
         | ColumnBreak \<Rightarrow> renderElements B elems x yOffset w))"

text \<open>\<open>Array.prototype.findIndex\<close> and \<open>Array.prototype.slice\<close>.\<close>

fun findIndex :: "('a \<Rightarrow> bool) \<Rightarrow> 'a list \<Rightarrow> int" where
  "findIndex P [] = - 1"
| "findIndex P (x # xs) =
     (if P x then 0 else (if findIndex P xs = - 1 then - 1 else findIndex P xs + 1))"

definition slice :: "'a list \<Rightarrow> int \<Rightarrow> int option \<Rightarrow> 'a list" where
  "slice xs start stop =
     (let len = int (length xs);
          rel = (\<lambda>k. if k < 0 then max (len + k) 0 else min k len);
          s = rel start;
          e = (case stop of None \<Rightarrow> len | Some k \<Rightarrow> rel k)
      in take (nat (e - s)) (drop (nat s) xs))"

text \<open>The body of the loop of \<open>buildPptx\<close> from \<open>findIndex\<close> on: the placing calls on
  the slide. An exception in the first column leaves the second unrendered.\<close>

definition layoutSlide :: "builtins \<Rightarrow> SlideElement list \<Rightarrow> error + effect list" where
  "layoutSlide B elems =
     (let breakIdx = findIndex (\<lambda>e. e = ColumnBreak) elems; yPos = VNum 1.2 in
      if breakIdx = - 1 then
        (case renderElements B elems 0.5 yPos 9.0 of
           Inl e \<Rightarrow> Inl e
         | Inr (col, y1) \<Rightarrow> Inr col)
      else
        (case renderElements B (slice elems 0 (Some breakIdx)) 0.5 yPos 4.5 of
           Inl e \<Rightarrow> Inl e
         | Inr (col1, y1) \<Rightarrow>
             (case renderElements B (slice elems (breakIdx + 1) None) 5.2 yPos 4.5 of
                Inl e \<Rightarrow> Inl e
              | Inr (col2, y2) \<Rightarrow> Inr (col1 @ col2))))"

text \<open>One turn of the loop of \<open>buildPptx\<close>: the calls on the new slide. \<open>if (notes)\<close>
  skips absent and empty notes.\<close>

definition buildSlide :: "builtins \<Rightarrow> SlideData \<Rightarrow> error + effect list" where
  "buildSlide B s =
     (case layoutSlide B (elements s) of
        Inl e \<Rightarrow> Inl e
      | Inr placed \<Rightarrow>
          Inr (AddTitle (title s) 0.5 0.3 9.0 0.75 #
               (case slide_notes s of None \<Rightarrow> [] | Some n \<Rightarrow> if n = [] then [] else [AddNotes n]) @
               placed))"

text \<open>The loop of \<open>buildPptx\<close>: the calls on each slide, or the first exception.\<close>

fun buildPptx :: "builtins \<Rightarrow> SlideData list \<Rightarrow> error + effect list list" where
  "buildPptx B [] = Inr []"
| "buildPptx B (s # deck) =
     (case buildSlide B s of
        Inl e \<Rightarrow> Inl e
      | Inr calls \<Rightarrow>
          (case buildPptx B deck of Inl e \<Rightarrow> Inl e | Inr rest \<Rightarrow> Inr (calls # rest)))"

subsection \<open>Reading a placement\<close>

text \<open>The \<open>y\<close> a placing call is given, the same when it is a number, and the value a
  shape declares under a key of its options.\<close>

fun placed_at :: "effect \<Rightarrow> prim option" where
  "placed_at (AddText runs x y w h) = Some y"
| "placed_at (AddImage path x y w h) = Some y"
| "placed_at (AddTable rows x y w) = Some y"
| "placed_at (AddShape shape fo) =
     (case map_of fo (js ''y'') of
        Some (JNum n) \<Rightarrow> Some (VNum n)
      | Some JNaN \<Rightarrow> Some VNaN
      | Some (JStr s) \<Rightarrow> Some (VStr s)
      | _ \<Rightarrow> None)"
| "placed_at _ = None"

definition placed_y :: "effect \<Rightarrow> rat option" where
  "placed_y c = (case placed_at c of Some (VNum n) \<Rightarrow> Some n | _ \<Rightarrow> None)"

definition declared :: "jsstring \<Rightarrow> json \<Rightarrow> json option" where
  "declared k options = map_of (assign [] (spread options)) k"

text \<open>
  Two conversions for the examples below: \<open>Number::toString\<close> on 0.1, 0.2, 1.2 and 3.2,
  and \<open>StringToNumber\<close> on strings that are no numerals.
\<close>

definition sample_builtins :: builtins where
  "sample_builtins =
     \<lparr>Number_toString = (\<lambda>n. if n = 0.1 then js ''0.1'' else if n = 0.2 then js ''0.2''
                             else if n = 1.2 then js ''1.2'' else if n = 3.2 then js ''3.2''
                             else []),
      StringToNumber = (\<lambda>s. None)\<rparr>"

subsection \<open>Reading a token stream\<close>

text \<open>The tokens that start a slide: headings of depth 1.\<close>

fun is_h1 :: "block \<Rightarrow> bool" where
  "is_h1 (BHeading depth text) = (depth = 1)"
| "is_h1 _ = False"

text \<open>
  The block a list item gives, in the words of the specification as amended for C5: no
  block for an item without runs; for a task item the check box string is put in front
  of the text of the first run, or, when that text is empty, goes in front as a run of
  its own; for a plain item the first run gets the bullet flag.
\<close>

definition spec_task_block :: "bool option \<Rightarrow> TextProps list \<Rightarrow> SlideElement option" where
  "spec_task_block c runs =
     (case runs of
        [] \<Rightarrow> None
      | r # rs \<Rightarrow>
          Some (TextBlock (if run_text r = []
                           then \<lparr>run_text = box c, run_options = None\<rparr> # r # rs
                           else r\<lparr>run_text := box c @ run_text r\<rparr> # rs)))"

definition spec_bullet_block :: "TextProps list \<Rightarrow> SlideElement option" where
  "spec_bullet_block runs =
     (case runs of
        [] \<Rightarrow> None
      | r # rs \<Rightarrow>
          Some (TextBlock (r\<lparr>run_options :=
                  Some ((case run_options r of None \<Rightarrow> empty_options | Some ro \<Rightarrow> ro)
                         \<lparr>bullet := Some True\<rparr>)\<rparr> # rs)))"

definition spec_item_block :: "list_item \<Rightarrow> SlideElement option" where
  "spec_item_block item =
     (if task item
      then spec_task_block (checked item) (parseTextRuns (item_tokens item) empty_options)
      else spec_bullet_block (parseTextRuns (item_tokens item) empty_options))"

text \<open>The text of the paragraph \<open>!shape[name](optionsText)\<close>, and the shape elements.\<close>

definition shape_paragraph :: "jsstring \<Rightarrow> jsstring \<Rightarrow> jsstring" where
  "shape_paragraph name optionsText = js ''!shape['' @ name @ js '']('' @ optionsText @ js '')''"

fun is_Shape :: "SlideElement \<Rightarrow> bool" where
  "is_Shape (Shape shape options) = True"
| "is_Shape _ = False"

text \<open>
  The cursor \<open>y\<close> is exhausted when the remaining height (slide height minus cursor minus
  bottom margin) is a number at or below the threshold 0.1; \<open>from_y y c\<close> says that the
  call \<open>c\<close> places something at the number \<open>y\<close> or further down the slide. The
  arithmetic is exact here; the program's doubles round, so for a cursor within a rounding
  error of 5.275 the program's remaining height can fall on the other side of its 0.1.
\<close>

definition exhausted :: "builtins \<Rightarrow> prim \<Rightarrow> bool" where
  "exhausted B y =
     (case ToNumber B y of None \<Rightarrow> False | Some n \<Rightarrow> slideHeight - n - bottomMargin \<le> 0.1)"

definition from_y :: "rat \<Rightarrow> effect \<Rightarrow> bool" where
  "from_y y c = (case placed_y c of None \<Rightarrow> False | Some v \<Rightarrow> y \<le> v)"

text \<open>
  \<open>places x w y c el\<close>: the call \<open>c\<close> places the element \<open>el\<close> in the column of origin \<open>x\<close>
  and width \<open>w\<close> at the cursor \<open>y\<close>. \<open>after B c\<close> is the cursor after the call: its \<open>y\<close>
  plus the height of what it places and the spacing after it.
\<close>

fun places :: "rat \<Rightarrow> rat \<Rightarrow> prim \<Rightarrow> effect \<Rightarrow> SlideElement \<Rightarrow> bool" where
  "places x w y (AddText runs' x' y' w' h) (TextBlock runs) =
     (runs' = runs \<and> x' = x \<and> y' = y \<and> w' = w)"
| "places x w y (AddImage path x' y' w' h) (Image href alt) =
     (path = href \<and> x' = x \<and> y' = y \<and> w' = w \<and> h = 3)"
| "places x w y (AddTable rows x' y' w') (Table headers body) =
     (rows = headers # body \<and> x' = x \<and> y' = y \<and> w' = w)"
| "places x w y (AddShape shape' fo) (Shape shape options) =
     (shape' = shape \<and> fo = finalOptions x w options y)"
| "places x w y _ _ = False"

fun after :: "builtins \<Rightarrow> effect \<Rightarrow> error + prim" where
  "after B (AddText runs x y w h) = Inr (js_plus B y (js_plus B h (VNum 0.1)))"
| "after B (AddImage path x y w h) = Inr (js_plus B y (VNum 3.2))"
| "after B (AddTable rows x y w) =
     Inr (js_plus B y (VNum (of_nat (length rows - 1) * 0.5 + 0.5)))"
| "after B (AddShape shape fo) =
     (case placed_at (AddShape shape fo) of
        None \<Rightarrow> Inl TypeError
      | Some y \<Rightarrow> (case shapeAdvance B fo of Inl e \<Rightarrow> Inl e | Inr a \<Rightarrow> Inr (js_plus B y a)))"
| "after B _ = Inl TypeError"


text \<open>The condition of C10 as amended: a shape declares no height, or a number that is
  not negative.\<close>

definition height_ok :: "SlideElement \<Rightarrow> bool" where
  "height_ok el =
     (case el of
        Shape shape options \<Rightarrow>
          (case declared (js ''h'') options of
             None \<Rightarrow> True
           | Some (JNum n) \<Rightarrow> 0 \<le> n
           | Some _ \<Rightarrow> False)
      | _ \<Rightarrow> True)"

subsection \<open>Properties of the inline run resolver\<close>

lemma parseTextRuns_leaves:
  "parseTextRuns ts (spec_style po anc) = map (spec_run po) (spec_leaves anc ts)"
  "parseToken t (spec_style po anc) = map (spec_run po) (spec_leaf anc t)"
proof (induction anc ts and anc t arbitrary: and rule: spec_leaves_spec_leaf.induct)
  case (3 anc ts)
  have "spec_style po (anc @ [Bold]) = (spec_style po anc)\<lparr>bold := Some True\<rparr>"
    by (simp add: spec_style_def)
  with 3 show ?case by simp
next
  case (4 anc ts)
  have "spec_style po (anc @ [Italic]) = (spec_style po anc)\<lparr>italic := Some True\<rparr>"
    by (simp add: spec_style_def)
  with 4 show ?case by simp
next
  case (6 anc href title ts)
  have "spec_style po (anc @ [Hyperlink href (title_or_href title href)]) =
      (spec_style po anc)\<lparr>hyperlink := Some \<lparr>url = href, tooltip = title_or_href title href\<rparr>\<rparr>"
    by (simp add: spec_style_def)
  with 6 show ?case by simp
qed (simp_all add: spec_run_def)

lemma spec_style_bold:
  "bold (spec_style po anc) = (if Bold \<in> set anc then Some True else bold po)"
proof (induction anc rule: rev_induct)
  case Nil
  show ?case by (simp add: spec_style_def)
next
  case (snoc s anc)
  then show ?case by (cases s) (simp_all add: spec_style_def)
qed

lemma spec_style_italic:
  "italic (spec_style po anc) = (if Italic \<in> set anc then Some True else italic po)"
proof (induction anc rule: rev_induct)
  case Nil
  show ?case by (simp add: spec_style_def)
next
  case (snoc s anc)
  then show ?case by (cases s) (simp_all add: spec_style_def)
qed

lemma innermost_link_snoc:
  "innermost_link (anc @ [s]) =
     (case s of Hyperlink u t \<Rightarrow> Some \<lparr>url = u, tooltip = t\<rparr> | _ \<Rightarrow> innermost_link anc)"
  by (induction anc rule: innermost_link.induct) (auto split: span.splits option.splits)

lemma spec_style_hyperlink:
  "hyperlink (spec_style po anc) =
     (case innermost_link anc of None \<Rightarrow> hyperlink po | Some h \<Rightarrow> Some h)"
proof (induction anc rule: rev_induct)
  case Nil
  show ?case by (simp add: spec_style_def)
next
  case (snoc s anc)
  then show ?case
    by (cases s) (simp_all add: spec_style_def innermost_link_snoc)
qed

lemma spec_style_other:
  "fontFace (spec_style po anc) = fontFace po"
  "bullet (spec_style po anc) = bullet po"
  "breakLine (spec_style po anc) = breakLine po"
proof (induction anc rule: rev_induct)
  case Nil
  {
    case 1 show ?case by (simp add: spec_style_def)
  next
    case 2 show ?case by (simp add: spec_style_def)
  next
    case 3 show ?case by (simp add: spec_style_def)
  }
next
  case (snoc s anc)
  {
    case 1 with snoc show ?case by (cases s) (simp_all add: spec_style_def)
  next
    case 2 with snoc show ?case by (cases s) (simp_all add: spec_style_def)
  next
    case 3 with snoc show ?case by (cases s) (simp_all add: spec_style_def)
  }
qed

text \<open>
  C3. The resolver returns the leaves of the token tree in reading order: the texts of
  the runs, concatenated, are the rendered text, and the style of every run is the
  inherited style united with the spans around the leaf (bold and italic as flags, the
  innermost hyperlink as the link; a code span adds its font). Bold and italic tokens
  give no run of their own: they give exactly the runs of their children.
\<close>

theorem parseTextRuns_flat_styled:
  "concat (map run_text (parseTextRuns ts po)) = spec_rendered_text ts
   \<and> parseTextRuns ts po = map (spec_run po) (spec_leaves [] ts)
   \<and> bold (spec_style po anc) = (if Bold \<in> set anc then Some True else bold po)
   \<and> italic (spec_style po anc) = (if Italic \<in> set anc then Some True else italic po)
   \<and> hyperlink (spec_style po anc) =
       (case innermost_link anc of None \<Rightarrow> hyperlink po | Some h \<Rightarrow> Some h)
   \<and> parseTextRuns [Strong ts] po = parseTextRuns ts (po\<lparr>bold := Some True\<rparr>)
   \<and> parseTextRuns [Em ts] po = parseTextRuns ts (po\<lparr>italic := Some True\<rparr>)
   \<and> map run_text (parseTextRuns [Strong ts] po) = map run_text (parseTextRuns ts po)
   \<and> map run_text (parseTextRuns [Em ts] po) = map run_text (parseTextRuns ts po)"
proof -
  have runs: "parseTextRuns us qo = map (spec_run qo) (spec_leaves [] us)" for us qo
    using parseTextRuns_leaves(1) [of us qo "[]"] by (simp add: spec_style_def)
  have texts: "map run_text (parseTextRuns us qo) = map fst (spec_leaves [] us)" for us qo
    by (simp add: runs spec_run_def split_def)
  have "concat (map run_text (parseTextRuns ts po)) = spec_rendered_text ts"
    by (simp only: texts spec_rendered_text_def)
  moreover have "map run_text (parseTextRuns [Strong ts] po) = map run_text (parseTextRuns ts po)"
    using texts [of ts "po\<lparr>bold := Some True\<rparr>"] texts [of ts po] by simp
  moreover have "map run_text (parseTextRuns [Em ts] po) = map run_text (parseTextRuns ts po)"
    using texts [of ts "po\<lparr>italic := Some True\<rparr>"] texts [of ts po] by simp
  ultimately show ?thesis
    using runs [of ts po] spec_style_bold [of po anc] spec_style_italic [of po anc]
      spec_style_hyperlink [of po anc]
    by simp
qed

text \<open>
  C6 fails as stated: the run of an unrecognized token carries the inherited options, so
  under a \<open>strong\<close> token it is bold, not unstyled.
\<close>

theorem parseTextRuns_other_styled_counterexample:
  "parseTextRuns [Strong [Other (js ''<br>'')]] empty_options =
     [\<lparr>run_text = js ''<br>'', run_options = Some (empty_options\<lparr>bold := Some True\<rparr>)\<rparr>]
   \<and> empty_options\<lparr>bold := Some True\<rparr> \<noteq> empty_options"
  by (simp add: js_def empty_options_def)

text \<open>
  C6, amended. An unrecognized token gives its raw text as one run that carries the
  inherited options unchanged (no options at all at the top level, where the inherited
  options are empty), and no run when the raw text is empty: in both cases the texts of
  its runs add up to the raw text.
\<close>

theorem parseTextRuns_other_inherits:
  "parseTextRuns [Other raw] po =
     (if raw = [] then [] else [\<lparr>run_text = raw, run_options = Some po\<rparr>])
   \<and> parseTextRuns [Other raw] empty_options =
     (if raw = [] then [] else [\<lparr>run_text = raw, run_options = Some empty_options\<rparr>])
   \<and> concat (map run_text (parseTextRuns [Other raw] po)) = raw"
  by simp

subsection \<open>Properties of the slide model builder\<close>

lemma finish_step_length:
  "length (fst (finish (step JP st t))) = length (fst (finish st)) + (if is_h1 t then 1 else 0)"
  by (cases t) (auto simp: finish_def split: option.splits prod.splits)

lemma finish_foldl_length:
  "length (fst (finish (foldl (step JP) st toks))) =
     length (fst (finish st)) + length (filter is_h1 toks)"
  by (induction toks arbitrary: st) (simp_all add: finish_step_length)

lemma step_no_current:
  "current st = None \<Longrightarrow> \<not> is_h1 t \<Longrightarrow> step JP st t = st"
  by (cases t) simp_all

lemma foldl_step_no_current:
  "current st = None \<Longrightarrow> \<not> list_ex is_h1 toks \<Longrightarrow> foldl (step JP) st toks = st"
  by (induction toks arbitrary: st) (simp_all add: step_no_current)

text \<open>
  C4. \<open>parseSlides\<close> returns as many slides as the token stream has headings of depth 1;
  tokens before the first such heading give no slide and no element: the result is that
  of the stream without them.
\<close>

theorem parseSlides_slide_count:
  "length (fst (parseSlides JP toks)) = length (filter is_h1 toks)
   \<and> (\<not> list_ex is_h1 pre \<longrightarrow>
        parseSlides JP pre = ([], []) \<and> parseSlides JP (pre @ rest) = parseSlides JP rest)"
proof -
  have "length (fst (parseSlides JP toks)) = length (filter is_h1 toks)"
    using finish_foldl_length [of JP initial toks]
    by (simp add: parseSlides_def) (simp add: finish_def initial_def)
  moreover have "foldl (step JP) initial pre = initial" if "\<not> list_ex is_h1 pre"
    using that by (intro foldl_step_no_current) (simp_all add: initial_def)
  then have "parseSlides JP pre = ([], []) \<and> parseSlides JP (pre @ rest) = parseSlides JP rest"
    if "\<not> list_ex is_h1 pre"
    using that by (simp add: parseSlides_def) (simp add: finish_def initial_def)
  ultimately show ?thesis by blast
qed

theorem parseSlides_slide_count_witness:
  "parseSlides (\<lambda>s. None) [BParagraph (js ''lost'') (Some [Text (js ''lost'') None]), BHr] = ([], [])
   \<and> parseSlides (\<lambda>s. None) ([BParagraph (js ''lost'') (Some [Text (js ''lost'') None]), BHr]
        @ [BHeading 1 (js ''A''), BHr, BHeading 2 (js ''B''), BHeading 1 (js ''C'')])
      = parseSlides (\<lambda>s. None) [BHeading 1 (js ''A''), BHr, BHeading 2 (js ''B''), BHeading 1 (js ''C'')]
   \<and> length (fst (parseSlides (\<lambda>s. None)
        [BHeading 1 (js ''A''), BHr, BHeading 2 (js ''B''), BHeading 1 (js ''C'')])) = 2"
  using parseSlides_slide_count [of "\<lambda>s. None"
     "[BHeading 1 (js ''A''), BHr, BHeading 2 (js ''B''), BHeading 1 (js ''C'')]"
     "[BParagraph (js ''lost'') (Some [Text (js ''lost'') None]), BHr]"
     "[BHeading 1 (js ''A''), BHr, BHeading 2 (js ''B''), BHeading 1 (js ''C'')]"]
  by simp

lemma listItem_block:
  "listItem cur item =
     (case spec_item_block item of
        None \<Rightarrow> cur | Some e \<Rightarrow> cur\<lparr>elements := elements cur @ [e]\<rparr>)"
  by (simp add: listItem_def spec_item_block_def spec_task_block_def spec_bullet_block_def
      push_element_def split: list.splits)

lemma foldl_listItem:
  "foldl listItem cur items =
     cur\<lparr>elements := elements cur @ List.map_filter spec_item_block items\<rparr>"
proof (induction items arbitrary: cur)
  case Nil
  show ?case by simp
next
  case (Cons item items)
  then show ?case
    by (simp add: listItem_block split: option.splits)
qed

text \<open>
  C5 fails as stated: a task item whose tokens give no run appends nothing, where the
  claim has a leading check box run appended as a block; and the string put in front of a
  checked item is U+2611 U+FE0F U+0020, not U+2611 U+0020.
\<close>

theorem task_item_counterexample:
  "parseSlides (\<lambda>s. None) [BHeading 1 (js ''T''),
      BList [\<lparr>task = True, checked = Some False, item_tokens = []\<rparr>]]
   = ([\<lparr>title = js ''T'', elements = [], slide_notes = None\<rparr>], [])
  \<and> parseSlides (\<lambda>s. None) [BHeading 1 (js ''T''),
      BList [\<lparr>task = True, checked = Some True, item_tokens = [Text (js ''a'') None]\<rparr>]]
   = ([\<lparr>title = js ''T'', elements =
        [TextBlock [\<lparr>run_text = [0x2611, 0xFE0F, 0x20, 0x61], run_options = Some empty_options\<rparr>]],
        slide_notes = None\<rparr>], [])
  \<and> [0x2611, 0xFE0F, 0x20, 0x61] \<noteq> [0x2611, 0x20, 0x61 :: 16 word]"
  by (simp add: parseSlides_def initial_def finish_def listItem_def box_def js_def push_element_def)

text \<open>
  C5, amended. With a current slide, a list appends, in the order of its items, one text
  block for each item whose tokens give at least one run, and nothing for the others,
  whether the list holds task items, plain items or both. The block of a task item is
  its runs with the check box string (U+2611 U+FE0F U+0020 when checked, U+2610 U+0020
  otherwise) put in front of the text of the first run, or, when that text is empty, in
  front as a run of its own without options.
\<close>

theorem task_items_blocks:
  "(current st = Some cur \<longrightarrow>
     step JP st (BList items) =
       st\<lparr>current := Some (cur\<lparr>elements := elements cur @
         List.map_filter spec_item_block items\<rparr>)\<rparr>)
   \<and> (task item \<longrightarrow>
        spec_item_block item =
          (case parseTextRuns (item_tokens item) empty_options of
             [] \<Rightarrow> None
           | r # rs \<Rightarrow>
               Some (TextBlock
                 (if run_text r = []
                  then \<lparr>run_text = box (checked item), run_options = None\<rparr> # r # rs
                  else r\<lparr>run_text := box (checked item) @ run_text r\<rparr> # rs))))
   \<and> box (Some True) = [0x2611, 0xFE0F, 0x20]
   \<and> box (Some False) = [0x2610, 0x20]
   \<and> box None = [0x2610, 0x20]"
  by (simp add: foldl_listItem box_def spec_item_block_def spec_task_block_def)

theorem task_items_blocks_witness:
  "fst (parseSlides (\<lambda>s. None) [BHeading 1 (js ''T''),
      BList [\<lparr>task = True, checked = Some True, item_tokens = [Text (js ''a'') None]\<rparr>,
             \<lparr>task = False, checked = None, item_tokens = [Text (js ''p'') None]\<rparr>,
             \<lparr>task = True, checked = Some False, item_tokens = []\<rparr>,
             \<lparr>task = True, checked = Some False, item_tokens = [Codespan [], Text (js ''b'') None]\<rparr>,
             \<lparr>task = True, checked = None, item_tokens = [Text [] None]\<rparr>]])
   = [\<lparr>title = js ''T'', elements =
        [TextBlock [\<lparr>run_text = [0x2611, 0xFE0F, 0x20, 0x61], run_options = Some empty_options\<rparr>],
         TextBlock [\<lparr>run_text = [0x70],
                       run_options = Some (empty_options\<lparr>bullet := Some True\<rparr>)\<rparr>],
         TextBlock [\<lparr>run_text = [0x2610, 0x20, 0x20, 0x20],
                       run_options = Some (empty_options\<lparr>fontFace := Some (js ''Courier New'')\<rparr>)\<rparr>,
                    \<lparr>run_text = [0x62], run_options = Some empty_options\<rparr>],
         TextBlock [\<lparr>run_text = [0x2610, 0x20], run_options = None\<rparr>,
                    \<lparr>run_text = [], run_options = Some empty_options\<rparr>]],
        slide_notes = None\<rparr>]
   \<and> spec_item_block \<lparr>task = True, checked = Some True, item_tokens = [Text (js ''a'') None]\<rparr>
     = Some (TextBlock [\<lparr>run_text = [0x2611, 0xFE0F, 0x20, 0x61], run_options = Some empty_options\<rparr>])"
  using task_items_blocks [where st = "\<lparr>slides = [], current = Some \<lparr>title = js ''T'', elements = [], slide_notes = None\<rparr>, errors = []\<rparr>"
     and cur = "\<lparr>title = js ''T'', elements = [], slide_notes = None\<rparr>"
     and items = "[\<lparr>task = True, checked = Some True, item_tokens = [Text (js ''a'') None]\<rparr>,
             \<lparr>task = False, checked = None, item_tokens = [Text (js ''p'') None]\<rparr>,
             \<lparr>task = True, checked = Some False, item_tokens = []\<rparr>,
             \<lparr>task = True, checked = Some False, item_tokens = [Codespan [], Text (js ''b'') None]\<rparr>,
             \<lparr>task = True, checked = None, item_tokens = [Text [] None]\<rparr>]"
     and JP = "\<lambda>s. None"
     and item = "\<lparr>task = True, checked = Some True, item_tokens = [Text (js ''a'') None]\<rparr>"]
  by (simp add: parseSlides_def initial_def finish_def spec_item_block_def spec_task_block_def
      spec_bullet_block_def box_def js_def)

lemma split_last_sep_append:
  "split_last_sep (p @ 0x5D # 0x28 # t) =
     (case split_last_sep t of Some (a, b) \<Rightarrow> Some (p @ 0x5D # 0x28 # a, b) | None \<Rightarrow> Some (p, t))"
  by (induction p) (simp_all add: js_def strip_prefix_def split: option.splits)

lemma trim_shape_paragraph: "trim (shape_paragraph name t) = shape_paragraph name t"
  by (simp add: trim_def shape_paragraph_def js_def is_space_def)

lemma noteMatch_shape_paragraph: "noteMatch (shape_paragraph name t) = None"
  by (simp add: noteMatch_def shape_paragraph_def js_def strip_prefix_def)

lemma imgMatch_shape_paragraph: "imgMatch (shape_paragraph name t) = None"
  by (simp add: imgMatch_def shape_paragraph_def js_def strip_prefix_def)

lemma shapeMatch_shape_paragraph:
  "shapeMatch (shape_paragraph name t) =
     (if list_ex is_line_terminator name \<or> list_ex is_line_terminator t then None
      else (case split_last_sep t of
              Some (a, b) \<Rightarrow> Some (name @ 0x5D # 0x28 # a, b)
            | None \<Rightarrow> Some (name, t)))"
proof -
  have body: "strip_prefix (js ''!shape['') (shape_paragraph name t) =
      Some ((name @ js '']('' @ t) @ js '')'')"
    by (simp add: shape_paragraph_def js_def strip_prefix_def)
  have lt: "list_ex is_line_terminator ((name @ js '']('' @ t) @ js '')'') =
      (list_ex is_line_terminator name \<or> list_ex is_line_terminator t)"
    by (simp add: js_def is_line_terminator_def list_ex_iff) blast
  have "last ((name @ js '']('' @ t) @ js '')'') = 0x29"
    by (simp add: js_def)
  moreover have "butlast ((name @ js '']('' @ t) @ js '')'') = name @ js '']('' @ t"
    by (simp add: js_def butlast_append)
  ultimately show ?thesis
    unfolding shapeMatch_def body option.case lt
    by (simp add: split_last_sep_append js_def)
qed

lemma shapeNameMap_get_oval:
  "shapeNameMap_get (js ''oval'') = Some (ShapeType (js ''ellipse''))"
  "shapeNameMap_get (js ''ellipse'') = Some (ShapeType (js ''ellipse''))"
  by (simp_all add: shapeNameMap_get_def shapeNameMap_def js_def OVAL_def ELLIPSE_def)

lemma shapeNameMap_get_longer:
  "shapeNameMap_get (js ''oval'' @ 0x5D # 0x28 # a) = None"
  "shapeNameMap_get (js ''ellipse'' @ 0x5D # 0x28 # a) = None"
  by (simp_all add: shapeNameMap_get_def shapeNameMap_def js_def Object_prototype_keys_def)

lemma no_line_terminator_names:
  "\<not> list_ex is_line_terminator (js ''oval'')" "\<not> list_ex is_line_terminator (js ''ellipse'')"
  by (simp_all add: js_def is_line_terminator_def)

lemma parseParagraph_oval_ellipse:
  "parseParagraph JP (shape_paragraph (js ''oval'') t) tk cur =
     (if list_ex is_line_terminator t then
        (let runs = parseTextRuns (case tk of None \<Rightarrow> [] | Some ts \<Rightarrow> ts) empty_options
         in if runs \<noteq> [] then (push_element cur (TextBlock runs), []) else (cur, []))
      else (case split_last_sep t of
              Some (a, b) \<Rightarrow> (cur, [InvalidShapeName (js ''oval'' @ 0x5D # 0x28 # a)])
            | None \<Rightarrow> (case JP t of
                         None \<Rightarrow> (cur, [InvalidShapeSyntax (shape_paragraph (js ''oval'') t)])
                       | Some v \<Rightarrow> (push_element cur (Shape (ShapeType (js ''ellipse'')) v), []))))"
  "parseParagraph JP (shape_paragraph (js ''ellipse'') t) tk cur =
     (if list_ex is_line_terminator t then
        (let runs = parseTextRuns (case tk of None \<Rightarrow> [] | Some ts \<Rightarrow> ts) empty_options
         in if runs \<noteq> [] then (push_element cur (TextBlock runs), []) else (cur, []))
      else (case split_last_sep t of
              Some (a, b) \<Rightarrow> (cur, [InvalidShapeName (js ''ellipse'' @ 0x5D # 0x28 # a)])
            | None \<Rightarrow> (case JP t of
                         None \<Rightarrow> (cur, [InvalidShapeSyntax (shape_paragraph (js ''ellipse'') t)])
                       | Some v \<Rightarrow> (push_element cur (Shape (ShapeType (js ''ellipse'')) v), []))))"
  by (simp_all add: parseParagraph_def noteMatch_shape_paragraph trim_shape_paragraph
      imgMatch_shape_paragraph shapeMatch_shape_paragraph no_line_terminator_names
      shapeNameMap_get_oval shapeNameMap_get_longer split: option.splits)

text \<open>
  C9. The paragraphs \<open>!shape[oval](t)\<close> and \<open>!shape[ellipse](t)\<close> leave the same shape
  elements on the current slide, whatever \<open>t\<close> is and whatever \<open>JSON.parse\<close> makes of it;
  when \<open>t\<close> is on one line, they leave the same current slide altogether. Both names
  are looked up to the same value, the string \<open>ellipse\<close>: where \<open>t\<close> parses (and holds
  no \<open>](\<close>), each paragraph appends the shape element of that kind with the parsed
  options.
\<close>

theorem oval_ellipse_same_shape:
  "map_option (\<lambda>cur. filter is_Shape (elements cur))
       (current (step JP st (BParagraph (shape_paragraph (js ''oval'') t) tk1)))
     = map_option (\<lambda>cur. filter is_Shape (elements cur))
       (current (step JP st (BParagraph (shape_paragraph (js ''ellipse'') t) tk2)))
   \<and> slides (step JP st (BParagraph (shape_paragraph (js ''oval'') t) tk1))
     = slides (step JP st (BParagraph (shape_paragraph (js ''ellipse'') t) tk2))
   \<and> (\<not> list_ex is_line_terminator t \<longrightarrow>
        current (step JP st (BParagraph (shape_paragraph (js ''oval'') t) tk1))
      = current (step JP st (BParagraph (shape_paragraph (js ''ellipse'') t) tk2)))
   \<and> (current st = Some cur \<and> JP t = Some v \<and> \<not> list_ex is_line_terminator t
        \<and> split_last_sep t = None \<longrightarrow>
        current (step JP st (BParagraph (shape_paragraph (js ''oval'') t) tk1))
          = Some (cur\<lparr>elements := elements cur @ [Shape (ShapeType (js ''ellipse'')) v]\<rparr>)
      \<and> current (step JP st (BParagraph (shape_paragraph (js ''ellipse'') t) tk2))
          = Some (cur\<lparr>elements := elements cur @ [Shape (ShapeType (js ''ellipse'')) v]\<rparr>))
   \<and> shapeNameMap_get (js ''oval'') = shapeNameMap_get (js ''ellipse'')"
  by (cases "current st")
     (auto simp: parseParagraph_oval_ellipse push_element_def Let_def shapeNameMap_get_oval
        split: option.splits)

theorem oval_ellipse_same_shape_witness:
  "current (step (\<lambda>s. if s = js ''{\"h\":2}'' then Some (JObj [(js ''h'', JNum 2)]) else None)
      \<lparr>slides = [], current = Some \<lparr>title = js ''T'', elements = [], slide_notes = None\<rparr>, errors = []\<rparr>
      (BParagraph (js ''!shape[oval]({\"h\":2})'') None))
    = Some \<lparr>title = js ''T'', elements = [Shape (ShapeType (js ''ellipse'')) (JObj [(js ''h'', JNum 2)])],
        slide_notes = None\<rparr>
   \<and> current (step (\<lambda>s. if s = js ''{\"h\":2}'' then Some (JObj [(js ''h'', JNum 2)]) else None)
      \<lparr>slides = [], current = Some \<lparr>title = js ''T'', elements = [], slide_notes = None\<rparr>, errors = []\<rparr>
      (BParagraph (js ''!shape[ellipse]({\"h\":2})'') None))
    = Some \<lparr>title = js ''T'', elements = [Shape (ShapeType (js ''ellipse'')) (JObj [(js ''h'', JNum 2)])],
        slide_notes = None\<rparr>"
  using oval_ellipse_same_shape [of "\<lambda>s. if s = js ''{\"h\":2}'' then Some (JObj [(js ''h'', JNum 2)]) else None"
      "\<lparr>slides = [], current = Some \<lparr>title = js ''T'', elements = [], slide_notes = None\<rparr>, errors = []\<rparr>"
      "js ''{\"h\":2}''" None None "\<lparr>title = js ''T'', elements = [], slide_notes = None\<rparr>"
      "JObj [(js ''h'', JNum 2)]"]
  by (simp add: shape_paragraph_def js_def is_line_terminator_def strip_prefix_def)

text \<open>
  What holds of C7: a shape paragraph whose name is looked up to \<open>undefined\<close>, or whose
  options \<open>JSON.parse\<close> rejects, prints one diagnostic and leaves the slides and the
  current slide as they were.
\<close>

lemma shape_paragraph_rejected:
  "current st = Some cur \<Longrightarrow> noteMatch text = None \<Longrightarrow> imgMatch (trim text) = None \<Longrightarrow>
   shapeMatch (trim text) = Some (name, t) \<Longrightarrow> shapeNameMap_get name = None \<or> JP t = None \<Longrightarrow>
   step JP st (BParagraph text tk) =
     st\<lparr>errors := errors st @ [if shapeNameMap_get name = None then InvalidShapeName name
                                 else InvalidShapeSyntax (trim text)]\<rparr>"
  by (auto simp: parseParagraph_def split: option.splits)

text \<open>
  C7 at the paragraph \<open>!shape[constructor]({})\<close>: \<open>constructor\<close> is no key of the shape
  name table, but the lookup finds it on \<open>Object.prototype\<close>, so no diagnostic is
  printed and a shape element is appended.
\<close>

theorem shape_name_constructor_accepted:
  "parseSlides (\<lambda>s. if s = js ''{}'' then Some (JObj []) else None)
     [BHeading 1 (js ''T''), BParagraph (js ''!shape[constructor]({})'') None]
   = ([\<lparr>title = js ''T'', elements = [Shape (Inherited (js ''constructor'')) (JObj [])],
        slide_notes = None\<rparr>], [])
   \<and> map_of shapeNameMap (js ''constructor'') = None"
  by (simp add: parseSlides_def initial_def finish_def parseParagraph_def noteMatch_def
      imgMatch_def shapeMatch_def strip_prefix_def js_def trim_def is_space_def
      is_line_terminator_def shapeNameMap_get_def shapeNameMap_def Object_prototype_keys_def
      push_element_def)

subsection \<open>Properties of the layout engine\<close>

text \<open>The final options of a shape: \<open>y\<close> is the cursor; \<open>x\<close>, \<open>w\<close> and \<open>h\<close> are those of
  the shape's options where it has them, else the column's \<open>x\<close> and \<open>w\<close> and no \<open>h\<close>.\<close>

lemma map_of_assign:
  "map_of (assign obj props) k =
     (case map_of (assign [] props) k of None \<Rightarrow> map_of obj k | Some v \<Rightarrow> Some v)"
proof (induction props arbitrary: obj)
  case Nil
  show ?case by (simp add: assign_def)
next
  case (Cons p props)
  obtain k' v' where p: "p = (k', v')" by (cases p)
  have l: "map_of (assign obj (p # props)) k =
      (case map_of (assign [] props) k of
         None \<Rightarrow> map_of (AList.update k' v' obj) k | Some v \<Rightarrow> Some v)"
    using Cons.IH [of "AList.update k' v' obj"] by (simp add: assign_def p)
  have r: "map_of (assign [] (p # props)) k =
      (case map_of (assign [] props) k of
         None \<Rightarrow> map_of [(k', v')] k | Some v \<Rightarrow> Some v)"
    using Cons.IH [of "[(k', v')]"] by (simp add: assign_def p)
  show ?case
    unfolding l r by (simp add: update_conv split: option.splits)
qed

lemma finalOptions_lookup:
  "map_of (finalOptions x w options yOffset) (js ''y'') = Some (prim_json yOffset)"
  "map_of (finalOptions x w options yOffset) (js ''x'') =
     (case declared (js ''x'') options of None \<Rightarrow> Some (JNum x) | Some v \<Rightarrow> Some v)"
  "map_of (finalOptions x w options yOffset) (js ''w'') =
     (case declared (js ''w'') options of None \<Rightarrow> Some (JNum w) | Some v \<Rightarrow> Some v)"
  "map_of (finalOptions x w options yOffset) (js ''h'') = declared (js ''h'') options"
  by (simp_all add: finalOptions_def update_conv declared_def
      map_of_assign [of "[p, q]" for p q] js_def split: option.splits)

lemma placed_at_shape:
  "placed_at (AddShape shape (finalOptions x w options y)) = Some y"
  by (cases y) (simp_all add: finalOptions_lookup prim_json_def)

lemma exhausted_guard:
  "(case remainingHeight B y of None \<Rightarrow> False | Some r \<Rightarrow> r \<le> 0.1) = exhausted B y"
  by (simp add: remainingHeight_def exhausted_def split: option.splits)

lemma renderElements_Cons:
  "renderElements B (el # elems) x y w =
     (if exhausted B y then Inr ([], y)
      else
        (case el of
           TextBlock runs \<Rightarrow>
             emit (AddText runs x y w (estimatedHeight B y runs))
               (renderElements B elems x
                  (js_plus B y (js_plus B (estimatedHeight B y runs) (VNum 0.1))) w)
         | Image href alt \<Rightarrow>
             emit (AddImage href x y w 3)
               (renderElements B elems x (js_plus B y (VNum 3.2)) w)
         | Table headers rows \<Rightarrow>
             emit (AddTable (headers # rows) x y w)
               (renderElements B elems x
                  (js_plus B y (VNum (of_nat (length rows) * 0.5 + 0.5))) w)
         | Shape shape options \<Rightarrow>
             (case shapeAdvance B (finalOptions x w options y) of
                Inl e \<Rightarrow> Inl e
              | Inr a \<Rightarrow>
                  emit (AddShape shape (finalOptions x w options y))
                    (renderElements B elems x (js_plus B y a) w))
         | ColumnBreak \<Rightarrow> renderElements B elems x y w))"
  unfolding renderElements.simps exhausted_guard ..

lemma renderElements_full:
  "exhausted B y \<Longrightarrow> renderElements B elems x y w = Inr ([], y)"
  by (cases elems) (simp_all add: renderElements_Cons del: renderElements.simps(2))

lemma emit_Inr: "emit c r = Inr (cs, y) \<longleftrightarrow> (\<exists>cs'. cs = c # cs' \<and> r = Inr (cs', y))"
  by (cases r) (auto simp: emit_def)

text \<open>
  What one turn of the loop does at a cursor that is not exhausted: nothing for a
  column break, else one call and the cursor after it.
\<close>

lemma renderElements_turn:
  assumes "\<not> exhausted B y" and "renderElements B (el # elems) x y w = Inr (cs, y')"
  shows "(el = ColumnBreak \<and> renderElements B elems x y w = Inr (cs, y'))
       \<or> (el \<noteq> ColumnBreak \<and>
           (\<exists>c cs' y1. cs = c # cs' \<and> places x w y c el \<and> after B c = Inr y1
              \<and> renderElements B elems x y1 w = Inr (cs', y')))"
proof (cases el)
  case (TextBlock runs)
  with assms show ?thesis
    by (auto simp: renderElements_Cons emit_Inr simp del: renderElements.simps(2))
next
  case (Image href alt)
  with assms show ?thesis
    by (auto simp: renderElements_Cons emit_Inr simp del: renderElements.simps(2))
next
  case (Table headers rows)
  with assms show ?thesis
    by (auto simp: renderElements_Cons emit_Inr simp del: renderElements.simps(2) of_nat_mult)
next
  case (Shape shape options)
  with assms show ?thesis
    by (auto simp: renderElements_Cons emit_Inr placed_at_shape
        simp del: renderElements.simps(2) placed_at.simps split: sum.splits)
next
  case ColumnBreak
  with assms show ?thesis
    by (simp add: renderElements_Cons del: renderElements.simps(2))
qed

lemma places_placed_at:
  "places x w y c el \<Longrightarrow> placed_at c = Some y \<and> \<not> is_diagnostic c"
  by (induction x w y c el rule: places.induct)
     (simp_all add: placed_at_shape del: placed_at.simps(4))

lemma renderElements_append:
  "renderElements B (pre @ post) x y w =
     (case renderElements B pre x y w of
        Inl e \<Rightarrow> Inl e
      | Inr (cs, y1) \<Rightarrow>
          (case renderElements B post x y1 w of
             Inl e \<Rightarrow> Inl e
           | Inr (cs', y') \<Rightarrow> Inr (cs @ cs', y')))"
proof (induction pre arbitrary: y)
  case Nil
  show ?case by (simp split: sum.splits)
next
  case (Cons el pre)
  show ?case
  proof (cases "exhausted B y")
    case True
    then show ?thesis
      using renderElements_full [of B y "(el # pre) @ post" x w]
        renderElements_full [of B y "el # pre" x w] renderElements_full [of B y post x w]
      by simp
  next
    case False
    then show ?thesis
      by (cases el)
         (auto simp: renderElements_Cons Cons.IH emit_def
           simp del: renderElements.simps(2) of_nat_mult split: sum.splits)
  qed
qed

lemma renderElements_placed:
  "renderElements B elems x y w = Inr (cs, y') \<Longrightarrow>
   list_all (\<lambda>c. \<not> is_diagnostic c
               \<and> (case placed_at c of None \<Rightarrow> False | Some v \<Rightarrow> \<not> exhausted B v)) cs"
proof (induction elems arbitrary: y cs)
  case Nil
  then show ?case by simp
next
  case (Cons el elems)
  show ?case
  proof (cases "exhausted B y")
    case True
    with Cons.prems renderElements_full [of B y "el # elems" x w] show ?thesis by simp
  next
    case False
    from renderElements_turn [OF False Cons.prems] show ?thesis
    proof (elim disjE conjE exE)
      assume "renderElements B elems x y w = Inr (cs, y')"
      then show ?thesis by (rule Cons.IH)
    next
      fix c cs' y1
      assume cs: "cs = c # cs'" and p: "places x w y c el"
        and rest: "renderElements B elems x y1 w = Inr (cs', y')"
      from places_placed_at [OF p] False Cons.IH [OF rest] show ?thesis
        by (simp add: cs)
    qed
  qed
qed

text \<open>
  C8. At an exhausted cursor \<open>renderElements\<close> places nothing, whatever elements are
  left; every call it makes places an element at a cursor that is not exhausted and none
  is a diagnostic; and once the cursor it returns is exhausted, any further elements of
  the column change nothing: they are dropped without a trace. (A cursor that has become
  a string that is no numeral has NaN for remaining height, which is not at or below the
  threshold: such a cursor is never exhausted.)
\<close>

theorem renderElements_truncates:
  "(exhausted B y0 \<longrightarrow> renderElements B elems0 x y0 w = Inr ([], y0))
   \<and> (renderElements B elems x y w = Inr (cs, y') \<longrightarrow>
        list_all (\<lambda>c. \<not> is_diagnostic c
                    \<and> (case placed_at c of None \<Rightarrow> False | Some v \<Rightarrow> \<not> exhausted B v)) cs)
   \<and> (renderElements B elems x y w = Inr (cs, y') \<and> exhausted B y' \<longrightarrow>
        renderElements B (elems @ rest) x y w = Inr (cs, y'))"
proof -
  have "renderElements B (elems @ rest) x y w = Inr (cs, y')"
    if "renderElements B elems x y w = Inr (cs, y')" "exhausted B y'"
    using that renderElements_full [of B y' rest x w]
    by (simp add: renderElements_append)
  then show ?thesis
    using renderElements_full [of B y0 elems0 x w]
      renderElements_placed [of B elems x y w cs y']
    by blast
qed

theorem renderElements_truncates_witness:
  "renderElements sample_builtins [Image (js ''a'') [], Image (js ''b'') []] 0.5 (VNum 6) 9.0
     = Inr ([], VNum 6)
   \<and> renderElements sample_builtins
        ([Image (js ''a'') [], Image (js ''b'') []] @ [Image (js ''c'') []]) 0.5 (VNum 1.2) 9.0
     = Inr ([AddImage (js ''a'') 0.5 (VNum 1.2) 9.0 3, AddImage (js ''b'') 0.5 (VNum 4.4) 9.0 3],
            VNum 7.6)
   \<and> \<not> exhausted sample_builtins (VNum 1.2) \<and> \<not> exhausted sample_builtins (VNum 4.4)
   \<and> exhausted sample_builtins (VNum 7.6) \<and> exhausted sample_builtins (VNum 6)"
proof -
  have r: "renderElements sample_builtins [Image (js ''a'') [], Image (js ''b'') []] 0.5 (VNum 1.2) 9.0
      = Inr ([AddImage (js ''a'') 0.5 (VNum 1.2) 9.0 3, AddImage (js ''b'') 0.5 (VNum 4.4) 9.0 3],
             VNum 7.6)"
    by (simp add: remainingHeight_def ToNumber_def slideHeight_def bottomMargin_def emit_def)
  have f: "exhausted sample_builtins (VNum 7.6)" "exhausted sample_builtins (VNum 6)"
    by (simp_all add: exhausted_def ToNumber_def slideHeight_def bottomMargin_def)
  from renderElements_truncates [where B = sample_builtins and ?y0.0 = "VNum 6"
      and ?elems0.0 = "[Image (js ''a'') [], Image (js ''b'') []]" and x = "0.5" and w = "9.0"
      and elems = "[Image (js ''a'') [], Image (js ''b'') []]" and y = "VNum 1.2"
      and cs = "[AddImage (js ''a'') 0.5 (VNum 1.2) 9.0 3, AddImage (js ''b'') 0.5 (VNum 4.4) 9.0 3]"
      and y' = "VNum 7.6" and rest = "[Image (js ''c'') []]"] r f
  show ?thesis by (simp add: exhausted_def ToNumber_def slideHeight_def bottomMargin_def)
qed

text \<open>
  A shape that declares the height \<open>"2"\<close>: the sum is the string \<open>20.2\<close>, the cursor
  becomes the string \<open>1.220.2\<close>, which is no numeral, and from there on nothing stops
  the loop: each of the three images is placed, each at the string the one before left.
\<close>

lemma string_height_goes_on:
  "renderElements sample_builtins
     [Shape (ShapeType RECTANGLE) (JObj [(js ''h'', JStr (js ''2''))]),
      Image (js ''a'') [], Image (js ''b'') [], Image (js ''c'') []] 0.5 (VNum 1.2) 9.0
   = Inr ([AddShape (ShapeType RECTANGLE)
             [(js ''x'', JNum 0.5), (js ''w'', JNum 9.0), (js ''h'', JStr (js ''2'')),
              (js ''y'', JNum 1.2)],
           AddImage (js ''a'') 0.5 (VStr (js ''1.220.2'')) 9.0 3,
           AddImage (js ''b'') 0.5 (VStr (js ''1.220.23.2'')) 9.0 3,
           AddImage (js ''c'') 0.5 (VStr (js ''1.220.23.23.2'')) 9.0 3],
          VStr (js ''1.220.23.23.23.2''))"
  by (simp add: remainingHeight_def ToNumber_def ToString_def slideHeight_def bottomMargin_def
      emit_def finalOptions_def shapeAdvance_def spread_def assign_def prim_json_def
      sample_builtins_def js_def)

text \<open>
  The same shape in the first of two columns: both columns are laid out.
\<close>

lemma string_height_two_columns:
  "layoutSlide sample_builtins
     [Shape (ShapeType RECTANGLE) (JObj [(js ''h'', JStr (js ''2''))]), Image (js ''a'') [],
      ColumnBreak, Image (js ''b'') []]
   = Inr [AddShape (ShapeType RECTANGLE)
            [(js ''x'', JNum 0.5), (js ''w'', JNum 4.5), (js ''h'', JStr (js ''2'')),
             (js ''y'', JNum 1.2)],
          AddImage (js ''a'') 0.5 (VStr (js ''1.220.2'')) 4.5 3,
          AddImage (js ''b'') 5.2 (VNum 1.2) 4.5 3]"
  by (simp add: Let_def layoutSlide_def slice_def remainingHeight_def ToNumber_def ToString_def
      slideHeight_def bottomMargin_def emit_def finalOptions_def shapeAdvance_def spread_def
      assign_def prim_json_def sample_builtins_def js_def)

text \<open>
  A shape whose declared height is an object with a member \<open>toString\<close>: the sum throws.
\<close>

lemma object_height_throws:
  "renderElements B
     [Shape (ShapeType RECTANGLE) (JObj [(js ''h'', JObj [(js ''toString'', JNum 1)])]),
      Image (js ''a'') []] 0.5 (VNum 1.2) 9.0
   = Inl TypeError"
  by (simp add: remainingHeight_def ToNumber_def slideHeight_def bottomMargin_def
      finalOptions_def shapeAdvance_def spread_def assign_def prim_json_def js_def)

lemma findIndex_none: "findIndex P xs = - 1 \<longleftrightarrow> \<not> list_ex P xs"
proof (induction xs)
  case Nil
  show ?case by simp
next
  case (Cons x xs)
  have "0 \<le> findIndex P ys \<or> findIndex P ys = - 1" for ys
    by (induction ys) auto
  from this [of xs] Cons show ?case by auto
qed

lemma findIndex_first:
  "\<not> list_ex P a \<Longrightarrow> P x \<Longrightarrow> findIndex P (a @ x # b) = int (length a)"
proof (induction a)
  case Nil
  then show ?case by simp
next
  case (Cons y a)
  then show ?case by simp
qed

lemma slice_columns:
  "slice (a @ x # b) 0 (Some (int (length a))) = a"
  "slice (a @ x # b) (int (length a) + 1) None = b"
  by (simp_all add: slice_def Let_def nat_add_distrib)


lemma layoutSlide_single:
  assumes "ColumnBreak \<notin> set elems"
  shows "layoutSlide B elems =
        (case renderElements B elems 0.5 (VNum 1.2) 9.0 of
           Inl e \<Rightarrow> Inl e
         | Inr (col, y1) \<Rightarrow> Inr col)"
proof -
  from assms have "findIndex (\<lambda>e. e = ColumnBreak) elems = - 1"
    by (simp add: findIndex_none list_ex_iff)
  then show ?thesis by (simp add: layoutSlide_def)
qed

lemma layoutSlide_two:
  assumes "ColumnBreak \<notin> set a"
  shows "layoutSlide B (a @ ColumnBreak # b) =
        (case renderElements B a 0.5 (VNum 1.2) 4.5 of
           Inl e \<Rightarrow> Inl e
         | Inr (col1, y1) \<Rightarrow>
             (case renderElements B b 5.2 (VNum 1.2) 4.5 of
                Inl e \<Rightarrow> Inl e
              | Inr (col2, y2) \<Rightarrow> Inr (col1 @ col2)))"
proof -
  from assms have i: "findIndex (\<lambda>e. e = ColumnBreak) (a @ ColumnBreak # b) = int (length a)"
    by (intro findIndex_first) (simp_all add: list_ex_iff)
  show ?thesis
    unfolding layoutSlide_def i Let_def
    by (simp only: slice_columns) simp
qed



lemma exhausted_num:
  "exhausted B (VNum y) = (slideHeight - y - bottomMargin \<le> 0.1)"
  by (simp add: exhausted_def ToNumber_def)

lemma estimatedHeight_num:
  "estimatedHeight B (VNum y) runs =
     VNum (min (slideHeight - y - bottomMargin) (of_nat (estimatedLines runs) * 0.5))"
  by (simp add: estimatedHeight_def remainingHeight_def ToNumber_def del: of_nat_mult)

lemma shapeAdvance_height_ok:
  "height_ok (Shape shape options) \<Longrightarrow>
   (case shapeAdvance B (finalOptions x w options y) of
      Inr (VNum a) \<Rightarrow> 0.2 \<le> a
    | _ \<Rightarrow> False)"
  unfolding shapeAdvance_def finalOptions_lookup
  by (cases "declared (js ''h'') options") (simp_all add: height_ok_def split: json.splits)

lemma from_y_mono: "y \<le> y1 \<Longrightarrow> list_all (from_y y1) cs \<Longrightarrow> list_all (from_y y) cs"
  by (induction cs) (auto simp: from_y_def split: option.splits)

lemma from_y_less:
  "y < y1 \<Longrightarrow> list_all (from_y y1) cs \<Longrightarrow> \<forall>v\<in>set (List.map_filter placed_y cs). y < v"
  by (induction cs) (auto simp: from_y_def split: option.splits)

lemma estimatedLines_pos: "1 \<le> estimatedLines runs"
proof -
  have "n \<le> foldl (\<lambda>acc run. acc + (case run_options run of None \<Rightarrow> 0
          | Some ro \<Rightarrow> if breakLine ro = Some True then 1 else 0)) n runs" for n :: nat
  proof (induction runs arbitrary: n)
    case Nil
    show ?case by simp
  next
    case (Cons r rs)
    from Cons [of "n + (case run_options r of None \<Rightarrow> 0
          | Some ro \<Rightarrow> if breakLine ro = Some True then 1 else 0)"]
    show ?case by simp
  qed
  then show ?thesis by (simp add: estimatedLines_def)
qed

lemma renderElements_increasing:
  "list_all height_ok elems \<Longrightarrow>
   \<exists>cs v'. renderElements B elems x (VNum y) w = Inr (cs, VNum v') \<and> y \<le> v'
      \<and> list_all (from_y y) cs \<and> sorted_wrt (<) (List.map_filter placed_y cs)"
proof (induction elems arbitrary: y)
  case Nil
  show ?case by simp
next
  case (Cons el elems)
  from Cons.prems have ok: "height_ok el" and oks: "list_all height_ok elems" by simp_all
  show ?case
  proof (cases "exhausted B (VNum y)")
    case True
    with renderElements_full [of B "VNum y" "el # elems" x w] show ?thesis by simp
  next
    case False
    then have r: "\<not> slideHeight - y - bottomMargin \<le> 0.1" by (simp add: exhausted_num)
    have placed: ?thesis
      if step: "renderElements B (el # elems) x (VNum y) w
                  = emit c (renderElements B elems x (VNum (y + a)) w)"
        and a: "0 < a" and c: "placed_y c = Some y" for c a
    proof -
      from Cons.IH [OF oks, of "y + a"] obtain cs v'
        where rest: "renderElements B elems x (VNum (y + a)) w = Inr (cs, VNum v')"
          and le: "y + a \<le> v'"
          and fr: "list_all (from_y (y + a)) cs"
          and so: "sorted_wrt (<) (List.map_filter placed_y cs)"
        by blast
      have "renderElements B (el # elems) x (VNum y) w = Inr (c # cs, VNum v')"
        unfolding step rest by (simp add: emit_def)
      moreover have "y \<le> v'" using le a by simp
      moreover have "list_all (from_y y) (c # cs)"
        using from_y_mono [of y "y + a" cs] fr a c by (simp add: from_y_def)
      moreover have "sorted_wrt (<) (List.map_filter placed_y (c # cs))"
        using from_y_less [of y "y + a" cs] fr a c so by simp
      ultimately show ?thesis by blast
    qed
    show ?thesis
    proof (cases el)
      case (TextBlock runs)
      have "(1 :: rat) \<le> of_nat (estimatedLines runs)"
        using estimatedLines_pos [of runs] by (metis of_nat_1 of_nat_le_iff)
      then have m: "0 < min (slideHeight - y - bottomMargin) (of_nat (estimatedLines runs) * 0.5)"
        using r by simp
      have "0 < min (slideHeight - y - bottomMargin) (of_nat (estimatedLines runs) * 0.5) + (0.1 :: rat)"
        by (rule add_pos_pos [OF m]) simp
      then show ?thesis
        using False
        by (intro placed [of "AddText runs x (VNum y) w
              (VNum (min (slideHeight - y - bottomMargin) (of_nat (estimatedLines runs) * 0.5)))"
              "min (slideHeight - y - bottomMargin) (of_nat (estimatedLines runs) * 0.5) + 0.1"])
           (simp_all add: TextBlock renderElements_Cons estimatedHeight_num placed_y_def
             del: renderElements.simps(2) of_nat_mult)
    next
      case (Image href alt)
      show ?thesis
        using False
        by (intro placed [of "AddImage href x (VNum y) w 3" "3.2"])
           (simp_all add: Image renderElements_Cons placed_y_def del: renderElements.simps(2))
    next
      case (Table headers rows)
      have "0 < of_nat (length rows) * 0.5 + (0.5 :: rat)"
        by (simp add: add_nonneg_pos)
      then show ?thesis
        using False
        by (intro placed [of "AddTable (headers # rows) x (VNum y) w"
              "of_nat (length rows) * 0.5 + 0.5"])
           (simp_all add: Table renderElements_Cons placed_y_def
             del: renderElements.simps(2) of_nat_mult)
    next
      case (Shape shape options)
      from shapeAdvance_height_ok [of shape options B x w "VNum y"] ok
      obtain a where a: "shapeAdvance B (finalOptions x w options (VNum y)) = Inr (VNum a)"
          "0.2 \<le> a"
        by (auto simp: Shape split: sum.splits prim.splits)
      show ?thesis
        using False a
        by (intro placed [of "AddShape shape (finalOptions x w options (VNum y))" a])
           (simp_all add: Shape renderElements_Cons placed_y_def placed_at_shape
             del: renderElements.simps(2) placed_at.simps)
    next
      case ColumnBreak
      with False have "renderElements B (el # elems) x (VNum y) w
          = renderElements B elems x (VNum y) w"
        by (simp add: renderElements_Cons del: renderElements.simps(2))
      with Cons.IH [OF oks, of y] show ?thesis by simp
    qed
  qed
qed

lemma layoutSlide_from_start:
  assumes "list_all height_ok elems"
  shows "case layoutSlide B elems of Inl e \<Rightarrow> False | Inr cs \<Rightarrow> list_all (from_y 1.2) cs"
proof (cases "ColumnBreak \<in> set elems")
  case False
  then have "layoutSlide B elems =
        (case renderElements B elems 0.5 (VNum 1.2) 9.0 of
           Inl e \<Rightarrow> Inl e
         | Inr (col, y1) \<Rightarrow> Inr col)"
    by (rule layoutSlide_single)
  with renderElements_increasing [OF assms, of B "0.5" "1.2" "9.0"] show ?thesis by auto
next
  case True
  then obtain a b where e: "elems = a @ ColumnBreak # b" and a: "ColumnBreak \<notin> set a"
    by (auto dest: split_list_first)
  from assms have "list_all height_ok a" "list_all height_ok b" by (simp_all add: e)
  from renderElements_increasing [OF this(1), of B "0.5" "1.2" "4.5"]
    renderElements_increasing [OF this(2), of B "5.2" "1.2" "4.5"]
  obtain c1 y1 c2 y2 where
    "renderElements B a 0.5 (VNum 1.2) 4.5 = Inr (c1, y1)" "list_all (from_y 1.2) c1"
    "renderElements B b 5.2 (VNum 1.2) 4.5 = Inr (c2, y2)" "list_all (from_y 1.2) c2"
    by blast
  then show ?thesis by (simp add: e layoutSlide_two [OF a])
qed

text \<open>
  C10 fails as stated: a shape that declares the height \<open>-5\<close> moves the cursor up by 4.8,
  and the image after it is placed at \<open>y = -3.6\<close>, above the shape and above the start
  offset 1.2.
\<close>

theorem negative_height_counterexample:
  "layoutSlide sample_builtins
      [Shape (ShapeType RECTANGLE) (JObj [(js ''h'', JNum (- 5))]), Image (js ''p'') []]
     = Inr [AddShape (ShapeType RECTANGLE)
               [(js ''x'', JNum 0.5), (js ''w'', JNum 9.0), (js ''h'', JNum (- 5)), (js ''y'', JNum 1.2)],
             AddImage (js ''p'') 0.5 (VNum (- 3.6)) 9.0 3]
   \<and> \<not> ((1.2 :: rat) < - 3.6) \<and> \<not> ((1.2 :: rat) \<le> - 3.6)"
  by (simp add: Let_def layoutSlide_def remainingHeight_def ToNumber_def slideHeight_def
        bottomMargin_def emit_def finalOptions_def shapeAdvance_def spread_def assign_def
        prim_json_def js_def)

text \<open>
  C10, amended. In a column whose shapes declare no height or a number that is not
  negative, \<open>renderElements\<close> started at a number returns, every call places at the start
  offset or further down, the \<open>y\<close> of the calls are numbers strictly increasing in the
  order of the calls, and the cursor returned is a number not above the start; on a slide
  of such elements every placing call of \<open>layoutSlide\<close> is at \<open>y = 1.2\<close> or further down.
\<close>

theorem columns_increasing:
  "(list_all height_ok elems \<longrightarrow>
      (case renderElements B elems x (VNum y) w of
         Inr (cs, VNum v') \<Rightarrow> y \<le> v' \<and> list_all (from_y y) cs
           \<and> sorted_wrt (<) (List.map_filter placed_y cs)
       | _ \<Rightarrow> False))
   \<and> (list_all height_ok elems \<longrightarrow>
      (case layoutSlide B elems of Inl e \<Rightarrow> False | Inr cs \<Rightarrow> list_all (from_y 1.2) cs))"
  using renderElements_increasing [of elems B x y w] layoutSlide_from_start [of elems B]
  by auto

theorem columns_increasing_witness:
  "layoutSlide sample_builtins [TextBlock [\<lparr>run_text = js ''a'', run_options = None\<rparr>],
       Shape (ShapeType RECTANGLE) (JObj [(js ''h'', JNum 2)]), ColumnBreak,
       Table [js ''k''] [[js ''v'']], Image (js ''p'') []]
     = Inr [AddText [\<lparr>run_text = js ''a'', run_options = None\<rparr>] 0.5 (VNum 1.2) 4.5 (VNum 0.5),
         AddShape (ShapeType RECTANGLE)
           [(js ''x'', JNum 0.5), (js ''w'', JNum 4.5), (js ''h'', JNum 2), (js ''y'', JNum 1.8)],
         AddTable [[js ''k''], [js ''v'']] 5.2 (VNum 1.2) 4.5, AddImage (js ''p'') 5.2 (VNum 2.2) 4.5 3]
   \<and> list_all height_ok [TextBlock [\<lparr>run_text = js ''a'', run_options = None\<rparr>],
       Shape (ShapeType RECTANGLE) (JObj [(js ''h'', JNum 2)]), ColumnBreak,
       Table [js ''k''] [[js ''v'']], Image (js ''p'') []]
   \<and> (case renderElements sample_builtins [TextBlock [\<lparr>run_text = js ''a'', run_options = None\<rparr>],
       Shape (ShapeType RECTANGLE) (JObj [(js ''h'', JNum 2)]), ColumnBreak,
       Table [js ''k''] [[js ''v'']], Image (js ''p'') []] 0.5 (VNum 1.2) 9.0 of
         Inr (cs, VNum v') \<Rightarrow> 1.2 \<le> v' \<and> list_all (from_y 1.2) cs
           \<and> sorted_wrt (<) (List.map_filter placed_y cs)
       | _ \<Rightarrow> False)"
proof -
  have ok: "list_all height_ok [TextBlock [\<lparr>run_text = js ''a'', run_options = None\<rparr>],
       Shape (ShapeType RECTANGLE) (JObj [(js ''h'', JNum 2)]), ColumnBreak,
       Table [js ''k''] [[js ''v'']], Image (js ''p'') []]"
    by (simp add: height_ok_def declared_def spread_def assign_def js_def)
  have l: "layoutSlide sample_builtins [TextBlock [\<lparr>run_text = js ''a'', run_options = None\<rparr>],
       Shape (ShapeType RECTANGLE) (JObj [(js ''h'', JNum 2)]), ColumnBreak,
       Table [js ''k''] [[js ''v'']], Image (js ''p'') []]
     = Inr [AddText [\<lparr>run_text = js ''a'', run_options = None\<rparr>] 0.5 (VNum 1.2) 4.5 (VNum 0.5),
         AddShape (ShapeType RECTANGLE)
           [(js ''x'', JNum 0.5), (js ''w'', JNum 4.5), (js ''h'', JNum 2), (js ''y'', JNum 1.8)],
         AddTable [[js ''k''], [js ''v'']] 5.2 (VNum 1.2) 4.5, AddImage (js ''p'') 5.2 (VNum 2.2) 4.5 3]"
    by (simp add: Let_def layoutSlide_def slice_def remainingHeight_def estimatedHeight_def
        ToNumber_def slideHeight_def bottomMargin_def emit_def estimatedLines_def
        finalOptions_def shapeAdvance_def spread_def assign_def prim_json_def js_def)
  from columns_increasing [where elems = "[TextBlock [\<lparr>run_text = js ''a'', run_options = None\<rparr>],
       Shape (ShapeType RECTANGLE) (JObj [(js ''h'', JNum 2)]), ColumnBreak,
       Table [js ''k''] [[js ''v'']], Image (js ''p'') []]" and B = sample_builtins
       and x = "0.5" and y = "1.2" and w = "9.0",
      THEN conjunct1, THEN mp, OF ok]
  show ?thesis by (intro conjI l ok)
qed

text \<open>
  C1 at a shape whose options are \<open>{"x": 3, "y": 4, "w": 2}\<close>, alone on a slide: the
  width of the options replaces the column width 9 and the \<open>y\<close> of the options gives
  way to the cursor 1.2, as the claim says, but the \<open>x\<close> of the options replaces the
  column origin 0.5. The lemma \<open>finalOptions_lookup\<close> has the general form.
\<close>

theorem shape_x_override:
  "layoutSlide sample_builtins [Shape (ShapeType RECTANGLE)
       (JObj [(js ''x'', JNum 3), (js ''y'', JNum 4), (js ''w'', JNum 2)])]
     = Inr [AddShape (ShapeType RECTANGLE)
               [(js ''x'', JNum 3), (js ''w'', JNum 2), (js ''y'', JNum 1.2)]]"
  by (simp add: Let_def layoutSlide_def remainingHeight_def ToNumber_def slideHeight_def
        bottomMargin_def emit_def finalOptions_def shapeAdvance_def spread_def assign_def
        prim_json_def js_def)

end
